theory Spec2Isabelle
  imports Main "HOL-Library.Sublist"
begin

section \<open>Values exchanged with the querystring tokenizer\<close>

text \<open>
  \<^verbatim>\<open>qs.parse(querystring, { depth: 0, comma: true })\<close> is a third-party library. Its
  result is an object whose keys are the bracketed parameter names, kept verbatim, and
  whose values are a string or an array of strings. The model receives that object as
  the list \<^verbatim>\<open>Object.entries\<close> makes of it.
\<close>

datatype qs_value = Scalar string | Array "string list"

type_synonym qs_params = "(string \<times> qs_value) list"

text \<open>\<^verbatim>\<open>Array.isArray(providedValue)\<close>\<close>

fun Array_isArray :: "qs_value \<Rightarrow> bool" where
  "Array_isArray (Array vs) = True"
| "Array_isArray (Scalar v) = False"

text \<open>The \<^verbatim>\<open>length\<close> property, which both strings and arrays have.\<close>

fun js_length :: "qs_value \<Rightarrow> nat" where
  "js_length (Array vs) = length vs"
| "js_length (Scalar v) = length v"

section \<open>parseInclude\<close>

text \<open>
  \<^verbatim>\<open>isAnArray\<close> and \<^verbatim>\<open>containsNoErrorFromParser\<close> come from
  \<^verbatim>\<open>../helpers/validation\<close>, which is not part of the sources at hand: they are
  parameters of the model.
\<close>

record 'e validation =
  isAnArray :: "qs_value \<Rightarrow> bool"
  containsNoErrorFromParser :: "'e list \<Rightarrow> bool"

record select_operation =
  fx :: string
  parameters :: qs_value

text \<open>
  An entry of the returned error list is either the message pushed by \<^verbatim>\<open>parseInclude\<close>
  itself (\<open>Inl\<close>) or an error handed over by the caller (\<open>Inr\<close>).
\<close>

record 'e include_result =
  results :: "select_operation list"
  errors :: "(string + 'e) list"

definition parseInclude ::
  "'e validation \<Rightarrow> qs_value \<Rightarrow> 'e list \<Rightarrow> 'e include_result" where
  "parseInclude helpers include includeErrors =
     (if containsNoErrorFromParser helpers includeErrors then
        (if \<not> isAnArray helpers include then
           \<lparr>results = [], errors = [Inl ''Include field should be an array'']\<rparr>
         else if js_length include > 0 then
           \<lparr>results = [\<lparr>fx = ''select'', parameters = include\<rparr>], errors = []\<rparr>
         else
           \<lparr>results = [], errors = []\<rparr>)
      else
        \<lparr>results = [], errors = map Inr includeErrors\<rparr>)"

section \<open>Enumerations and helpers of parseMongoFilter\<close>

text \<open>
  The enumeration objects \<^verbatim>\<open>MongoOperator\<close> and \<^verbatim>\<open>SqlOperator\<close> are required from
  \<^verbatim>\<open>../enums\<close>, which is not part of the sources at hand. Their members are strings
  (they are compared with the operator token of the querystring and used as property
  names), and the model takes the value of every member the source names as a parameter.
\<close>

record MongoOperator =
  EQUALS :: string
  IS_NULL :: string
  NOT_EQUALS :: string
  GREATER_THAN :: string
  GREATER_OR_EQUAL :: string
  LESS_THAN :: string
  LESS_OR_EQUAL :: string
  ILIKE :: string
  IN :: string
  NOT_IN :: string

record SqlOperator =
  EQUALS :: string
  NOT_EQUALS :: string
  GREATER_THAN :: string
  GREATER_OR_EQUAL :: string
  LESS_THAN :: string
  LESS_OR_EQUAL :: string
  LIKE :: string
  ILIKE :: string
  IN :: string
  NOT_IN :: string
  IS_NULL :: string
  IS_NOT_NULL :: string

text \<open>
  Modelled from the spec: the enumeration \<^verbatim>\<open>MongoValueType\<close> is not part of the sources
  at hand; the spec gives its members as NUMBER, DATE, NULL and STRING.
\<close>

datatype MongoValueType = NUMBER | DATE | NULL | STRING

text \<open>
  The helpers \<^verbatim>\<open>areMongoTypesTheSame\<close> and \<^verbatim>\<open>isNullString\<close> are required from
  \<^verbatim>\<open>../helpers\<close> and are parameters as well; \<open>None\<close> is the falsy answer of
  \<^verbatim>\<open>areMongoTypesTheSame\<close>. JavaScript numbers are floating point: the model keeps
  them in a type \<open>'n\<close> of its own, with the conversions \<^verbatim>\<open>Number(value)\<close> and
  (inside a template literal) number to string as parameters.
\<close>

record 'n env =
  mongoEnum :: MongoOperator
  sqlEnum :: SqlOperator
  areMongoTypesTheSame :: "string list \<Rightarrow> MongoValueType option"
  isNullString :: "string \<Rightarrow> bool"
  Number :: "string \<Rightarrow> 'n"
  numberToString :: "'n \<Rightarrow> string"

section \<open>Values of the JavaScript program\<close>

text \<open>A coerced filter value: \<^verbatim>\<open>null\<close>, a number or a string.\<close>

datatype 'n js_value = JNull | JNumber 'n | JString string

text \<open>What a template literal \<^verbatim>\<open>${val}\<close> prints.\<close>

fun template :: "'n env \<Rightarrow> 'n js_value \<Rightarrow> string" where
  "template env JNull = ''null''"
| "template env (JNumber n) = numberToString env n"
| "template env (JString s) = s"

text \<open>A string that may be \<^verbatim>\<open>undefined\<close>, printed by a template literal.\<close>

fun template_opt :: "string option \<Rightarrow> string" where
  "template_opt None = ''undefined''"
| "template_opt (Some s) = s"

text \<open>
  The value read from an object literal by \<^verbatim>\<open>{...}[key]\<close>: the string stored under the
  key, or what the prototype chain gives: the member of \<^verbatim>\<open>Object.prototype\<close> of that
  name, or \<^verbatim>\<open>undefined\<close>.
\<close>

datatype js_ref = Undefined | Str string | Inherited string

definition Object_prototype :: "string list" where
  "Object_prototype =
     [''constructor'', ''hasOwnProperty'', ''isPrototypeOf'', ''propertyIsEnumerable'',
      ''toLocaleString'', ''toString'', ''valueOf'', ''__proto__'',
      ''__defineGetter__'', ''__defineSetter__'', ''__lookupGetter__'', ''__lookupSetter__'']"

text \<open>
  An object literal with computed keys, as the list of its \<^verbatim>\<open>[key]: value\<close> entries in
  source order: a later entry replaces an earlier one of the same key.
\<close>

definition object_get :: "(string \<times> string) list \<Rightarrow> string \<Rightarrow> js_ref" where
  "object_get entries key =
     (case map_of (rev entries) key of
        Some v \<Rightarrow> Str v
      | None \<Rightarrow> if key \<in> set Object_prototype then Inherited key else Undefined)"

section \<open>Predicates and errors\<close>

text \<open>
  \<^verbatim>\<open>{ [sqlOperator]: attributeRef }\<close> is \<open>Unary\<close>,
  \<^verbatim>\<open>{ [sqlOperator]: [attributeRef, ...sqlValues] }\<close> is \<open>Nary\<close> (the list holds the
  attribute reference first), and \<^verbatim>\<open>{ AND: [prevs, curnt] }\<close> is \<open>AND\<close>. The key of
  a leaf is kept as the value of \<^verbatim>\<open>sqlOperator\<close>, which JavaScript turns into a
  property name.
\<close>

datatype 'n predicate =
    Unary js_ref string
  | Nary js_ref "'n js_value list"
  | AND "'n predicate" "'n predicate"

text \<open>\<^verbatim>\<open>QuerystringParsingError\<close>, with the four fields its constructor is given.\<close>

record parsing_error =
  message :: string
  querystring :: string
  paramKey :: string
  paramValue :: qs_value

text \<open>The returned \<^verbatim>\<open>{ results, errors }\<close>; \<open>None\<close> is \<^verbatim>\<open>undefined\<close>.\<close>

record 'n filter_result =
  filter_results :: "'n predicate option"
  filter_errors :: "parsing_error list"

datatype js_exception = TypeError

datatype 'a completion = Returns 'a | Throws js_exception

section \<open>parseMongoFilter\<close>

text \<open>\<^verbatim>\<open>String.prototype.split\<close> with a one-character separator.\<close>

fun split_on :: "char \<Rightarrow> string \<Rightarrow> string list" where
  "split_on d [] = [[]]"
| "split_on d (c # cs) =
     (if c = d then [] # split_on d cs
      else (case split_on d cs of
              [] \<Rightarrow> [[c]]
            | r # rs \<Rightarrow> (c # r) # rs))"

text \<open>
  \<^verbatim>\<open>param.replace(/\[/g, "]").split("]").filter((s) => s.length)\<close>
\<close>

definition segments :: "string \<Rightarrow> string list" where
  "segments param =
     filter (\<lambda>s. length s \<noteq> 0)
       (split_on (CHR '']'') (map (\<lambda>c. if c = CHR ''['' then CHR '']'' else c) param))"

text \<open>Array destructuring: an element that is not there is \<^verbatim>\<open>undefined\<close>.\<close>

definition element :: "'a list \<Rightarrow> nat \<Rightarrow> 'a option" where
  "element xs i = (if i < length xs then Some (xs ! i) else None)"

text \<open>
  \<^verbatim>\<open>providedValueWasAnArray ? providedValue : [providedValue]\<close>: a single value is
  wrapped in an array.
\<close>

fun valuesOf :: "qs_value \<Rightarrow> string list" where
  "valuesOf (Array vs) = vs"
| "valuesOf (Scalar v) = [v]"

text \<open>The coercion of one value (the callback of the first \<^verbatim>\<open>values.map\<close>).\<close>

definition coerce :: "'n env \<Rightarrow> MongoValueType \<Rightarrow> string \<Rightarrow> 'n js_value" where
  "coerce env valueType v =
     (if isNullString env v then JNull
      else if valueType = NUMBER then JNumber (Number env v)
      else JString v)"

text \<open>The block "determine mongo operator".\<close>

definition determineOperator ::
  "MongoOperator \<Rightarrow> string option \<Rightarrow> bool \<Rightarrow> MongoValueType \<Rightarrow> string" where
  "determineOperator MO providedOperator providedValueWasAnArray valueType =
     (case providedOperator of
        Some operator \<Rightarrow> operator
      | None \<Rightarrow>
          if providedValueWasAnArray then MongoOperator.IN MO
          else (case valueType of
                  NUMBER \<Rightarrow> MongoOperator.EQUALS MO
                | DATE \<Rightarrow> MongoOperator.EQUALS MO
                | NULL \<Rightarrow> MongoOperator.IS_NULL MO
                | STRING \<Rightarrow> MongoOperator.ILIKE MO))"

text \<open>The object literal that maps the operators to the SQL domain.\<close>

definition sqlOperatorTable :: "MongoOperator \<Rightarrow> SqlOperator \<Rightarrow> (string \<times> string) list" where
  "sqlOperatorTable MO SO =
     [(MongoOperator.EQUALS MO, SqlOperator.EQUALS SO),
      (MongoOperator.IS_NULL MO, SqlOperator.EQUALS SO),
      (MongoOperator.NOT_EQUALS MO, SqlOperator.NOT_EQUALS SO),
      (MongoOperator.GREATER_THAN MO, SqlOperator.GREATER_THAN SO),
      (MongoOperator.GREATER_OR_EQUAL MO, SqlOperator.GREATER_OR_EQUAL SO),
      (MongoOperator.LESS_THAN MO, SqlOperator.LESS_THAN SO),
      (MongoOperator.LESS_OR_EQUAL MO, SqlOperator.LESS_OR_EQUAL SO),
      (MongoOperator.ILIKE MO, SqlOperator.ILIKE SO),
      (MongoOperator.IN MO, SqlOperator.IN SO),
      (MongoOperator.NOT_IN MO, SqlOperator.NOT_IN SO)]"

text \<open>
  The block "adjust EQUALS and NOT EQUALS operators for null values". Under its guard
  \<^verbatim>\<open>sqlOperator\<close> is one of two strings, so the second lookup reads a string key.
\<close>

definition adjustForNull :: "SqlOperator \<Rightarrow> MongoValueType \<Rightarrow> js_ref \<Rightarrow> js_ref" where
  "adjustForNull SO valueType sqlOperator =
     (if sqlOperator \<in> set [Str (SqlOperator.EQUALS SO), Str (SqlOperator.NOT_EQUALS SO)]
         \<and> valueType = NULL
      then (case sqlOperator of
              Str key \<Rightarrow>
                object_get [(SqlOperator.EQUALS SO, SqlOperator.IS_NULL SO),
                            (SqlOperator.NOT_EQUALS SO, SqlOperator.IS_NOT_NULL SO)] key
            | _ \<Rightarrow> sqlOperator)
      else sqlOperator)"

text \<open>The callback of the second \<^verbatim>\<open>values.map\<close>: "wrap ilike strings in wildcards".\<close>

definition wrap :: "'n env \<Rightarrow> js_ref \<Rightarrow> 'n js_value \<Rightarrow> 'n js_value" where
  "wrap env sqlOperator val =
     (if sqlOperator = Str (SqlOperator.LIKE (sqlEnum env))
      then JString (''%'' @ template env val @ ''%'')
      else val)"

text \<open>
  The helper \<^verbatim>\<open>createError\<close> of the loop body, with the variables it captures: the
  querystring, the field, the operator as provided and the value as provided.
\<close>

definition createErrorFor ::
  "string \<Rightarrow> string option \<Rightarrow> string option \<Rightarrow> qs_value \<Rightarrow> string \<Rightarrow> parsing_error" where
  "createErrorFor qstring field providedOperator providedValue msg =
     (let operatorWasOmitted = (providedOperator = None) in
      \<lparr>message = msg,
       querystring = qstring,
       paramKey = ''filter['' @ template_opt field @ '']'' @
         (if operatorWasOmitted then '''' else ''['' @ template_opt providedOperator @ '']''),
       paramValue = providedValue\<rparr>)"

text \<open>
  The body of the loop over \<^verbatim>\<open>filterParams\<close> for one entry: \<open>Inl\<close> is the error of a
  short circuit, \<open>Inr\<close> the predicate pushed on \<^verbatim>\<open>fieldResults\<close>.
\<close>

definition processField ::
  "'n env \<Rightarrow> string \<Rightarrow> string \<times> qs_value \<Rightarrow> parsing_error + 'n predicate" where
  \<open>processField env qstring entry =
     (case entry of (param, providedValue) \<Rightarrow>
      let MO = mongoEnum env;
          SO = sqlEnum env;
          field = element (segments param) 1;
          providedOperator = element (segments param) 2;
          providedValueWasAnArray = Array_isArray providedValue;
          createError = createErrorFor qstring field providedOperator providedValue;
          values = valuesOf providedValue
      in
      case areMongoTypesTheSame env values of
        None \<Rightarrow> Inl (createError ''arrays should not mix multiple value types'')
      | Some valueType \<Rightarrow>
          let coerced = map (coerce env valueType) values;
              operator = determineOperator MO providedOperator providedValueWasAnArray valueType
          in
          if providedValueWasAnArray
             \<and> operator \<notin> set [MongoOperator.IN MO, MongoOperator.NOT_IN MO]
          then Inl (createError
                 (''"'' @ operator @ ''" operator should not be used with array value''))
          else if valueType = NULL
             \<and> operator \<in> set [MongoOperator.GREATER_THAN MO, MongoOperator.GREATER_OR_EQUAL MO,
                                MongoOperator.LESS_THAN MO, MongoOperator.LESS_OR_EQUAL MO,
                                MongoOperator.ILIKE MO]
          then Inl (createError
                 (''"'' @ operator @ ''" operator should not be used with null value''))
          else if valueType = NUMBER \<and> operator = MongoOperator.ILIKE MO
          then Inl (createError
                 (''"'' @ operator @ ''" operator should not be used with number values''))
          else if valueType = DATE \<and> operator = MongoOperator.ILIKE MO
          then Inl (createError
                 (''"'' @ operator @ ''" operator should not be used with date values''))
          else
            let sqlOperator =
                  adjustForNull SO valueType (object_get (sqlOperatorTable MO SO) operator);
                sqlValues = map (wrap env sqlOperator) coerced;
                attributeRef = ''#'' @ template_opt field;
                operatorIsUnary =
                  (sqlOperator \<in> set [Str (SqlOperator.IS_NULL SO), Str (SqlOperator.IS_NOT_NULL SO)])
            in
            if operatorIsUnary then Inr (Unary sqlOperator attributeRef)
            else Inr (Nary sqlOperator (JString attributeRef # sqlValues)))\<close>

text \<open>
  The loop over \<^verbatim>\<open>filterParams\<close>, with the variables \<^verbatim>\<open>errors\<close> and
  \<^verbatim>\<open>fieldResults\<close> it updates: \<open>Inl\<close> is the value of a \<^verbatim>\<open>return\<close> inside the loop
  (where \<^verbatim>\<open>results\<close> has not been assigned yet), \<open>Inr\<close> the two variables when the
  loop ends.
\<close>

fun filterParamsLoop ::
  "'n env \<Rightarrow> string \<Rightarrow> parsing_error list \<Rightarrow> 'n predicate list \<Rightarrow> qs_params
     \<Rightarrow> 'n filter_result + (parsing_error list \<times> 'n predicate list)" where
  "filterParamsLoop env qstring errs fieldResults [] = Inr (errs, fieldResults)"
| "filterParamsLoop env qstring errs fieldResults (entry # rest) =
     (case processField env qstring entry of
        Inl e \<Rightarrow> Inl \<lparr>filter_results = None, filter_errors = errs @ [e]\<rparr>
      | Inr p \<Rightarrow> filterParamsLoop env qstring errs (fieldResults @ [p]) rest)"

text \<open>
  \<^verbatim>\<open>Array.prototype.reduce\<close> without an initial value: the first element starts the
  accumulator, and an empty array raises a TypeError.
\<close>

fun reduce :: "('a \<Rightarrow> 'a \<Rightarrow> 'a) \<Rightarrow> 'a list \<Rightarrow> 'a completion" where
  "reduce f [] = Throws TypeError"
| "reduce f (x # xs) = Returns (foldl f x xs)"

text \<open>
  \<^verbatim>\<open>parseMongoFilter(querystring)\<close>; \<open>qsParams\<close> is what \<^verbatim>\<open>qs.parse\<close> made of the
  querystring.
\<close>

definition startsWith :: "string \<Rightarrow> string \<Rightarrow> bool" where
  "startsWith s p = prefix p s"

definition filterParams :: "qs_params \<Rightarrow> qs_params" where
  "filterParams qsParams = filter (\<lambda>(key, _). startsWith key ''filter'') qsParams"

definition parseMongoFilter ::
  "'n env \<Rightarrow> string \<Rightarrow> qs_params \<Rightarrow> 'n filter_result completion" where
  "parseMongoFilter env qstring qsParams =
     (case filterParamsLoop env qstring [] [] (filterParams qsParams) of
        Inl returned \<Rightarrow> Returns returned
      | Inr (errs, fieldResults) \<Rightarrow>
          (case reduce (\<lambda>prevs curnt. AND prevs curnt) fieldResults of
             Throws ex \<Rightarrow> Throws ex
           | Returns r \<Rightarrow> Returns \<lparr>filter_results = Some r, filter_errors = errs\<rparr>))"

section \<open>Notions used by the properties\<close>

text \<open>The members of each enumeration have pairwise different values.\<close>

definition enums_ok :: "MongoOperator \<Rightarrow> SqlOperator \<Rightarrow> bool" where
  "enums_ok MO SO \<longleftrightarrow>
     distinct [MongoOperator.EQUALS MO, MongoOperator.IS_NULL MO, MongoOperator.NOT_EQUALS MO,
               MongoOperator.GREATER_THAN MO, MongoOperator.GREATER_OR_EQUAL MO,
               MongoOperator.LESS_THAN MO, MongoOperator.LESS_OR_EQUAL MO,
               MongoOperator.ILIKE MO, MongoOperator.IN MO, MongoOperator.NOT_IN MO]
   \<and> distinct [SqlOperator.EQUALS SO, SqlOperator.NOT_EQUALS SO, SqlOperator.GREATER_THAN SO,
               SqlOperator.GREATER_OR_EQUAL SO, SqlOperator.LESS_THAN SO,
               SqlOperator.LESS_OR_EQUAL SO, SqlOperator.LIKE SO, SqlOperator.ILIKE SO,
               SqlOperator.IN SO, SqlOperator.NOT_IN SO, SqlOperator.IS_NULL SO,
               SqlOperator.IS_NOT_NULL SO]"

text \<open>The source operator vocabulary: the keys of the mapping table.\<close>

definition vocabulary :: "MongoOperator \<Rightarrow> string list" where
  "vocabulary MO =
     [MongoOperator.EQUALS MO, MongoOperator.IS_NULL MO, MongoOperator.NOT_EQUALS MO,
      MongoOperator.GREATER_THAN MO, MongoOperator.GREATER_OR_EQUAL MO,
      MongoOperator.LESS_THAN MO, MongoOperator.LESS_OR_EQUAL MO,
      MongoOperator.ILIKE MO, MongoOperator.IN MO, MongoOperator.NOT_IN MO]"

text \<open>
  Modelled from the spec: the helper \<^verbatim>\<open>areMongoTypesTheSame\<close> is not part of the
  sources at hand. The spec (4.1) classifies each value on its own and gives the one
  type all elements share, or a conflict when two elements classify differently; the
  classification of one value is a parameter. The spec gives the input at least one
  element.
\<close>

definition areMongoTypesTheSame_spec ::
  "(string \<Rightarrow> MongoValueType) \<Rightarrow> string list \<Rightarrow> MongoValueType option" where
  "areMongoTypesTheSame_spec classify vs =
     (case vs of
        [] \<Rightarrow> None
      | v # rest \<Rightarrow>
          if list_all (\<lambda>w. classify w = classify v) rest then Some (classify v) else None)"

text \<open>Leaves, depth and the left-leaning shape of a predicate tree.\<close>

fun is_leaf :: "'n predicate \<Rightarrow> bool" where
  "is_leaf (AND l r) = False"
| "is_leaf p = True"

fun depth :: "'n predicate \<Rightarrow> nat" where
  "depth (AND l r) = Suc (max (depth l) (depth r))"
| "depth p = 0"

fun left_leaning :: "'n predicate \<Rightarrow> bool" where
  "left_leaning (AND l r) = (left_leaning l \<and> is_leaf r)"
| "left_leaning p = True"

text \<open>An error with the querystring it echoes replaced.\<close>

definition with_querystring :: "string \<Rightarrow> 'n filter_result \<Rightarrow> 'n filter_result" where
  "with_querystring q r =
     r\<lparr>filter_errors := map (\<lambda>e. e\<lparr>querystring := q\<rparr>) (filter_errors r)\<rparr>"

section \<open>An instance of the parameters\<close>

text \<open>
  Concrete enumerations and helpers, on which the model runs on concrete querystrings.
  The member values are chosen for this instance only (the properties below hold for all
  enumerations with pairwise different values); a value is NULL when it is the string
  \<^verbatim>\<open>null\<close>, NUMBER when it is a run of digits and STRING otherwise, and a number is
  kept as its literal.
\<close>

definition sampleMongoOperator :: MongoOperator where
  "sampleMongoOperator =
     \<lparr>MongoOperator.EQUALS = ''$eq'', IS_NULL = ''IS NULL'', NOT_EQUALS = ''$ne'',
      GREATER_THAN = ''$gt'', GREATER_OR_EQUAL = ''$gte'', LESS_THAN = ''$lt'',
      LESS_OR_EQUAL = ''$lte'', ILIKE = ''$ilike'', IN = ''$in'', NOT_IN = ''$nin''\<rparr>"

definition sampleSqlOperator :: SqlOperator where
  "sampleSqlOperator =
     \<lparr>SqlOperator.EQUALS = ''='', NOT_EQUALS = ''<>'', GREATER_THAN = ''>'',
      GREATER_OR_EQUAL = ''>='', LESS_THAN = ''<'', LESS_OR_EQUAL = ''<='',
      LIKE = ''LIKE'', ILIKE = ''ILIKE'', IN = ''IN'', NOT_IN = ''NOT IN'',
      IS_NULL = ''IS NULL'', IS_NOT_NULL = ''IS NOT NULL''\<rparr>"

definition sampleClassify :: "string \<Rightarrow> MongoValueType" where
  "sampleClassify v =
     (if v = ''null'' then NULL
      else if v \<noteq> [] \<and> list_all (\<lambda>c. c \<in> set ''0123456789'') v then NUMBER
      else STRING)"

definition sampleEnv :: "string env" where
  "sampleEnv =
     \<lparr>mongoEnum = sampleMongoOperator,
      sqlEnum = sampleSqlOperator,
      areMongoTypesTheSame = areMongoTypesTheSame_spec sampleClassify,
      isNullString = (\<lambda>v. v = ''null''),
      Number = (\<lambda>v. v),
      numberToString = (\<lambda>n. n)\<rparr>"

definition sampleValidation :: "string validation" where
  "sampleValidation =
     \<lparr>isAnArray = Array_isArray, containsNoErrorFromParser = (\<lambda>es. es = [])\<rparr>"

section \<open>Auxiliary facts\<close>

subsection \<open>The mapping table\<close>

lemma table_lookup:
  assumes "enums_ok MO SO"
  shows "object_get (sqlOperatorTable MO SO) (MongoOperator.EQUALS MO) = Str (SqlOperator.EQUALS SO)"
    and "object_get (sqlOperatorTable MO SO) (MongoOperator.IS_NULL MO) = Str (SqlOperator.EQUALS SO)"
    and "object_get (sqlOperatorTable MO SO) (MongoOperator.NOT_EQUALS MO) = Str (SqlOperator.NOT_EQUALS SO)"
    and "object_get (sqlOperatorTable MO SO) (MongoOperator.GREATER_THAN MO) = Str (SqlOperator.GREATER_THAN SO)"
    and "object_get (sqlOperatorTable MO SO) (MongoOperator.GREATER_OR_EQUAL MO) = Str (SqlOperator.GREATER_OR_EQUAL SO)"
    and "object_get (sqlOperatorTable MO SO) (MongoOperator.LESS_THAN MO) = Str (SqlOperator.LESS_THAN SO)"
    and "object_get (sqlOperatorTable MO SO) (MongoOperator.LESS_OR_EQUAL MO) = Str (SqlOperator.LESS_OR_EQUAL SO)"
    and "object_get (sqlOperatorTable MO SO) (MongoOperator.ILIKE MO) = Str (SqlOperator.ILIKE SO)"
    and "object_get (sqlOperatorTable MO SO) (MongoOperator.IN MO) = Str (SqlOperator.IN SO)"
    and "object_get (sqlOperatorTable MO SO) (MongoOperator.NOT_IN MO) = Str (SqlOperator.NOT_IN SO)"
  using assms by (simp_all add: enums_ok_def object_get_def sqlOperatorTable_def)

lemma table_range:
  assumes "enums_ok MO SO"
  shows "object_get (sqlOperatorTable MO SO) key \<noteq> Str (SqlOperator.IS_NULL SO)"
    and "object_get (sqlOperatorTable MO SO) key \<noteq> Str (SqlOperator.IS_NOT_NULL SO)"
    and "object_get (sqlOperatorTable MO SO) key \<noteq> Str (SqlOperator.LIKE SO)"
  using assms
  by (auto simp: enums_ok_def object_get_def sqlOperatorTable_def split: option.splits if_splits)

lemma unknown_lookup:
  assumes "operator \<notin> set (vocabulary MO)" and "operator \<notin> set Object_prototype"
  shows "object_get (sqlOperatorTable MO SO) operator = Undefined"
  using assms
  by (auto simp: vocabulary_def object_get_def sqlOperatorTable_def split: option.splits if_splits)

lemma adjust_cases:
  assumes "enums_ok MO SO"
  shows "adjustForNull SO NULL (Str (SqlOperator.EQUALS SO)) = Str (SqlOperator.IS_NULL SO)"
    and "adjustForNull SO NULL (Str (SqlOperator.NOT_EQUALS SO)) = Str (SqlOperator.IS_NOT_NULL SO)"
  using assms
  by (auto simp: enums_ok_def adjustForNull_def object_get_def)

lemma adjust_unchanged:
  assumes "\<not> (t = NULL \<and> b \<in> {Str (SqlOperator.EQUALS SO), Str (SqlOperator.NOT_EQUALS SO)})"
  shows "adjustForNull SO t b = b"
  using assms by (auto simp: adjustForNull_def)

subsection \<open>The loop\<close>

lemma loop_all_ok:
  "map (processField env q) ps = map Inr rs \<Longrightarrow>
   filterParamsLoop env q errs acc ps = Inr (errs, acc @ rs)"
proof (induction ps arbitrary: acc rs)
  case Nil
  then show ?case by simp
next
  case (Cons entry rest)
  then obtain r rs' where rs: "rs = r # rs'" by (cases rs) auto
  with Cons.prems have "processField env q entry = Inr r"
    and "map (processField env q) rest = map Inr rs'" by simp_all
  with Cons.IH [of rs' "acc @ [r]"] rs show ?case by simp
qed

lemma loop_first_failure:
  assumes "\<forall>p \<in> set pre. \<exists>r. processField env q p = Inr r"
    and "processField env q entry = Inl e"
  shows "filterParamsLoop env q errs acc (pre @ entry # post)
           = Inl \<lparr>filter_results = None, filter_errors = errs @ [e]\<rparr>"
  using assms
proof (induction pre arbitrary: acc)
  case Nil
  then show ?case by simp
next
  case (Cons p pre)
  then obtain r where "processField env q p = Inr r" by auto
  with Cons show ?case by simp
qed

text \<open>With at least one filter parameter the function returns.\<close>

lemma loop_length:
  "filterParamsLoop env q errs acc ps = Inr (errs', frs) \<Longrightarrow> length frs = length acc + length ps"
proof (induction ps arbitrary: acc)
  case Nil
  then show ?case by simp
next
  case (Cons entry rest)
  then show ?case
    by (cases "processField env q entry") (auto dest: Cons.IH)
qed

lemma parseMongoFilter_returns:
  assumes "filterParams qsParams \<noteq> []"
  shows "\<exists>r. parseMongoFilter env q qsParams = Returns r"
proof (cases "filterParamsLoop env q [] [] (filterParams qsParams)")
  case (Inl ret)
  then show ?thesis by (simp add: parseMongoFilter_def)
next
  case (Inr st)
  obtain errs frs where st: "st = (errs, frs)" by (cases st)
  with Inr loop_length [of env q "[]" "[]" "filterParams qsParams" errs frs] assms
  have "frs \<noteq> []" by auto
  then obtain x xs where "frs = x # xs" by (cases frs) auto
  with Inr st show ?thesis by (simp add: parseMongoFilter_def)
qed

subsection \<open>The querystring is only echoed\<close>

lemma createErrorFor_querystring:
  "(createErrorFor q f operator v msg)\<lparr>querystring := q'\<rparr> = createErrorFor q' f operator v msg"
  by (simp add: createErrorFor_def)

lemma processField_querystring:
  "processField env q' entry
     = map_sum (\<lambda>e. e\<lparr>querystring := q'\<rparr>) (\<lambda>p. p) (processField env q entry)"
proof (cases entry)
  case (Pair param pv)
  show ?thesis
  proof (cases "areMongoTypesTheSame env (valuesOf pv)")
    case None
    then show ?thesis
      unfolding Pair by (simp add: processField_def createErrorFor_querystring)
  next
    case (Some t)
    have d: "\<And>c x y. map_sum (\<lambda>e. e\<lparr>querystring := q'\<rparr>) (\<lambda>p. p) (if c then x else y)
               = (if c then map_sum (\<lambda>e. e\<lparr>querystring := q'\<rparr>) (\<lambda>p. p) x
                  else map_sum (\<lambda>e. e\<lparr>querystring := q'\<rparr>) (\<lambda>p. p) y)"
      by simp
    from Some show ?thesis
      unfolding Pair processField_def Let_def
      by (simp only: prod.case option.case createErrorFor_querystring map_sum.simps d)
  qed
qed

lemma loop_querystring:
  "filterParamsLoop env q' (map (\<lambda>e. e\<lparr>querystring := q'\<rparr>) errs) acc ps
     = map_sum (with_querystring q') (map_prod (map (\<lambda>e. e\<lparr>querystring := q'\<rparr>)) (\<lambda>r. r))
         (filterParamsLoop env q errs acc ps)"
proof (induction ps arbitrary: acc)
  case Nil
  then show ?case by simp
next
  case (Cons entry rest)
  show ?case
  proof (cases "processField env q entry")
    case (Inl e)
    then have "processField env q' entry = Inl (e\<lparr>querystring := q'\<rparr>)"
      using processField_querystring [of env q' entry q] by simp
    with Inl show ?thesis by (simp add: with_querystring_def)
  next
    case (Inr p)
    then have "processField env q' entry = Inr p"
      using processField_querystring [of env q' entry q] by simp
    with Inr Cons.IH [of "acc @ [p]"] show ?thesis by simp
  qed
qed

subsection \<open>Leaves and folds\<close>

lemma processField_leaf: "processField env q entry = Inr p \<Longrightarrow> is_leaf p"
  by (cases entry) (auto simp: processField_def Let_def split: option.splits if_splits)

lemma leaf_depth: "is_leaf p \<Longrightarrow> depth p = 0"
  by (cases p) simp_all

lemma foldl_AND_depth:
  "list_all is_leaf ps \<Longrightarrow> depth (foldl AND p ps) = depth p + length ps"
  by (induction ps arbitrary: p) (simp_all add: leaf_depth)

lemma foldl_AND_left_leaning:
  "left_leaning p \<Longrightarrow> list_all is_leaf ps \<Longrightarrow> left_leaning (foldl AND p ps)"
  by (induction ps arbitrary: p) auto

subsection \<open>The classification of the spec\<close>

lemma spec_mixed:
  assumes "i < length vs" and "j < length vs" and "classify (vs ! i) \<noteq> classify (vs ! j)"
  shows "areMongoTypesTheSame_spec classify vs = None"
proof (cases vs)
  case Nil
  with assms show ?thesis by simp
next
  case (Cons v rest)
  have "\<not> list_all (\<lambda>w. classify w = classify v) rest"
  proof
    assume "list_all (\<lambda>w. classify w = classify v) rest"
    then have "\<forall>w \<in> set vs. classify w = classify v"
      using Cons by (simp add: list_all_iff)
    then have "classify (vs ! i) = classify v" and "classify (vs ! j) = classify v"
      using assms(1,2) by simp_all
    with assms(3) show False by simp
  qed
  with Cons show ?thesis by (simp add: areMongoTypesTheSame_spec_def)
qed

lemma mixed_field:
  assumes "areMongoTypesTheSame env (valuesOf pv) = None"
  shows "processField env q (param, pv)
           = Inl (createErrorFor q (element (segments param) 1) (element (segments param) 2) pv
                    ''arrays should not mix multiple value types'')"
  using assms by (simp add: processField_def)

subsection \<open>One field, by operator and type\<close>

lemma omitted_array:
  assumes ok: "enums_ok (mongoEnum env) (sqlEnum env)"
    and om: "element (segments param) 2 = None"
    and ty: "areMongoTypesTheSame env vs = Some t"
  shows "processField env q (param, Array vs)
           = Inr (Nary (Str (SqlOperator.IN (sqlEnum env)))
                   (JString (''#'' @ template_opt (element (segments param) 1))
                      # map (coerce env t) vs))"
proof -
  have l: "object_get (sqlOperatorTable (mongoEnum env) (sqlEnum env)) (MongoOperator.IN (mongoEnum env))
             = Str (SqlOperator.IN (sqlEnum env))"
    using ok by (rule table_lookup)
  have d: "MongoOperator.IN (mongoEnum env) \<noteq> MongoOperator.GREATER_THAN (mongoEnum env)"
    "MongoOperator.IN (mongoEnum env) \<noteq> MongoOperator.GREATER_OR_EQUAL (mongoEnum env)"
    "MongoOperator.IN (mongoEnum env) \<noteq> MongoOperator.LESS_THAN (mongoEnum env)"
    "MongoOperator.IN (mongoEnum env) \<noteq> MongoOperator.LESS_OR_EQUAL (mongoEnum env)"
    "MongoOperator.IN (mongoEnum env) \<noteq> MongoOperator.ILIKE (mongoEnum env)"
    "SqlOperator.IN (sqlEnum env) \<noteq> SqlOperator.EQUALS (sqlEnum env)"
    "SqlOperator.IN (sqlEnum env) \<noteq> SqlOperator.NOT_EQUALS (sqlEnum env)"
    "SqlOperator.IN (sqlEnum env) \<noteq> SqlOperator.LIKE (sqlEnum env)"
    "SqlOperator.IN (sqlEnum env) \<noteq> SqlOperator.IS_NULL (sqlEnum env)"
    "SqlOperator.IN (sqlEnum env) \<noteq> SqlOperator.IS_NOT_NULL (sqlEnum env)"
    using ok by (auto simp: enums_ok_def)
  show ?thesis
    using om ty l d
    by (simp add: processField_def Let_def determineOperator_def adjustForNull_def wrap_def)
qed

lemma omitted_scalar_equals:
  assumes ok: "enums_ok (mongoEnum env) (sqlEnum env)"
    and om: "element (segments param) 2 = None"
    and ty: "areMongoTypesTheSame env [v] = Some t"
    and t: "t = NUMBER \<or> t = DATE"
  shows "processField env q (param, Scalar v)
           = Inr (Nary (Str (SqlOperator.EQUALS (sqlEnum env)))
                   [JString (''#'' @ template_opt (element (segments param) 1)), coerce env t v])"
proof -
  have l: "object_get (sqlOperatorTable (mongoEnum env) (sqlEnum env)) (MongoOperator.EQUALS (mongoEnum env))
             = Str (SqlOperator.EQUALS (sqlEnum env))"
    using ok by (rule table_lookup)
  have d: "MongoOperator.EQUALS (mongoEnum env) \<noteq> MongoOperator.ILIKE (mongoEnum env)"
    "SqlOperator.EQUALS (sqlEnum env) \<noteq> SqlOperator.LIKE (sqlEnum env)"
    "SqlOperator.EQUALS (sqlEnum env) \<noteq> SqlOperator.IS_NULL (sqlEnum env)"
    "SqlOperator.EQUALS (sqlEnum env) \<noteq> SqlOperator.IS_NOT_NULL (sqlEnum env)"
    using ok by (auto simp: enums_ok_def)
  show ?thesis
    using om ty t l d
    by (auto simp: processField_def Let_def determineOperator_def adjustForNull_def wrap_def)
qed

lemma omitted_scalar_null:
  assumes ok: "enums_ok (mongoEnum env) (sqlEnum env)"
    and om: "element (segments param) 2 = None"
    and ty: "areMongoTypesTheSame env [v] = Some NULL"
  shows "processField env q (param, Scalar v)
           = Inr (Unary (Str (SqlOperator.IS_NULL (sqlEnum env)))
                   (''#'' @ template_opt (element (segments param) 1)))"
proof -
  have l: "object_get (sqlOperatorTable (mongoEnum env) (sqlEnum env)) (MongoOperator.IS_NULL (mongoEnum env))
             = Str (SqlOperator.EQUALS (sqlEnum env))"
    using ok by (rule table_lookup)
  have a: "adjustForNull (sqlEnum env) NULL (Str (SqlOperator.EQUALS (sqlEnum env)))
             = Str (SqlOperator.IS_NULL (sqlEnum env))"
    using ok by (rule adjust_cases)
  have d: "MongoOperator.IS_NULL (mongoEnum env) \<noteq> MongoOperator.GREATER_THAN (mongoEnum env)"
    "MongoOperator.IS_NULL (mongoEnum env) \<noteq> MongoOperator.GREATER_OR_EQUAL (mongoEnum env)"
    "MongoOperator.IS_NULL (mongoEnum env) \<noteq> MongoOperator.LESS_THAN (mongoEnum env)"
    "MongoOperator.IS_NULL (mongoEnum env) \<noteq> MongoOperator.LESS_OR_EQUAL (mongoEnum env)"
    "MongoOperator.IS_NULL (mongoEnum env) \<noteq> MongoOperator.ILIKE (mongoEnum env)"
    using ok by (auto simp: enums_ok_def)
  show ?thesis
    using om ty l a d
    by (simp add: processField_def Let_def determineOperator_def)
qed

lemma ilike_scalar_string:
  assumes ok: "enums_ok (mongoEnum env) (sqlEnum env)"
    and om: "element (segments param) 2 = None
             \<or> element (segments param) 2 = Some (MongoOperator.ILIKE (mongoEnum env))"
    and ty: "areMongoTypesTheSame env [v] = Some STRING"
  shows "processField env q (param, Scalar v)
           = Inr (Nary (Str (SqlOperator.ILIKE (sqlEnum env)))
                   [JString (''#'' @ template_opt (element (segments param) 1)),
                    coerce env STRING v])"
proof -
  have l: "object_get (sqlOperatorTable (mongoEnum env) (sqlEnum env)) (MongoOperator.ILIKE (mongoEnum env))
             = Str (SqlOperator.ILIKE (sqlEnum env))"
    using ok by (rule table_lookup)
  have d:
    "SqlOperator.ILIKE (sqlEnum env) \<noteq> SqlOperator.LIKE (sqlEnum env)"
    "SqlOperator.ILIKE (sqlEnum env) \<noteq> SqlOperator.EQUALS (sqlEnum env)"
    "SqlOperator.ILIKE (sqlEnum env) \<noteq> SqlOperator.NOT_EQUALS (sqlEnum env)"
    "SqlOperator.ILIKE (sqlEnum env) \<noteq> SqlOperator.IS_NULL (sqlEnum env)"
    "SqlOperator.ILIKE (sqlEnum env) \<noteq> SqlOperator.IS_NOT_NULL (sqlEnum env)"
    using ok by (auto simp: enums_ok_def)
  show ?thesis
    using om ty l d
    by (auto simp: processField_def Let_def determineOperator_def adjustForNull_def wrap_def)
qed

lemma validated_field:
  assumes ok: "enums_ok (mongoEnum env) (sqlEnum env)"
    and ty: "areMongoTypesTheSame env (valuesOf pv) = Some t"
    and res: "processField env q (param, pv) = Inr p"
    and base: "base = object_get (sqlOperatorTable (mongoEnum env) (sqlEnum env))
                 (determineOperator (mongoEnum env) (element (segments param) 2) (Array_isArray pv) t)"
    and ref: "ref = ''#'' @ template_opt (element (segments param) 1)"
  shows "(t = NULL \<and> base = Str (SqlOperator.EQUALS (sqlEnum env))
            \<longrightarrow> p = Unary (Str (SqlOperator.IS_NULL (sqlEnum env))) ref)
       \<and> (t = NULL \<and> base = Str (SqlOperator.NOT_EQUALS (sqlEnum env))
            \<longrightarrow> p = Unary (Str (SqlOperator.IS_NOT_NULL (sqlEnum env))) ref)
       \<and> (\<not> (t = NULL \<and> base \<in> {Str (SqlOperator.EQUALS (sqlEnum env)),
                                   Str (SqlOperator.NOT_EQUALS (sqlEnum env))})
            \<longrightarrow> p = Nary base (JString ref # map (wrap env base) (map (coerce env t) (valuesOf pv))))"
proof -
  note nu = table_range [OF ok, of "determineOperator (mongoEnum env) (element (segments param) 2) (Array_isArray pv) t", folded base]
  have a1: "adjustForNull (sqlEnum env) NULL (Str (SqlOperator.EQUALS (sqlEnum env)))
             = Str (SqlOperator.IS_NULL (sqlEnum env))"
    and a2: "adjustForNull (sqlEnum env) NULL (Str (SqlOperator.NOT_EQUALS (sqlEnum env)))
             = Str (SqlOperator.IS_NOT_NULL (sqlEnum env))"
    using ok by (rule adjust_cases)+
  have p: "p = (let s = adjustForNull (sqlEnum env) t base in
                if s \<in> set [Str (SqlOperator.IS_NULL (sqlEnum env)), Str (SqlOperator.IS_NOT_NULL (sqlEnum env))]
                then Unary s ref
                else Nary s (JString ref # map (wrap env s) (map (coerce env t) (valuesOf pv))))"
    using res ty unfolding base ref
    by (auto simp: processField_def Let_def split: if_splits)
  show ?thesis
  proof (intro conjI impI)
    assume "t = NULL \<and> base = Str (SqlOperator.EQUALS (sqlEnum env))"
    then show "p = Unary (Str (SqlOperator.IS_NULL (sqlEnum env))) ref"
      using p a1 by simp
  next
    assume "t = NULL \<and> base = Str (SqlOperator.NOT_EQUALS (sqlEnum env))"
    then show "p = Unary (Str (SqlOperator.IS_NOT_NULL (sqlEnum env))) ref"
      using p a2 by simp
  next
    assume h: "\<not> (t = NULL \<and> base \<in> {Str (SqlOperator.EQUALS (sqlEnum env)),
                                   Str (SqlOperator.NOT_EQUALS (sqlEnum env))})"
    from adjust_unchanged [OF h] show "p = Nary base (JString ref # map (wrap env base) (map (coerce env t) (valuesOf pv)))"
      using p nu by (simp add: Let_def)
  qed
qed

lemma unknown_operator_field:
  assumes "element (segments param) 2 = Some operator"
    and "operator \<notin> set (vocabulary (mongoEnum env))"
    and "operator \<notin> set Object_prototype"
    and "areMongoTypesTheSame env [v] = Some t"
  shows "processField env q (param, Scalar v)
           = Inr (Nary Undefined
                   [JString (''#'' @ template_opt (element (segments param) 1)), coerce env t v])"
proof -
  have look: "object_get (sqlOperatorTable (mongoEnum env) (sqlEnum env)) operator = Undefined"
    using assms(2,3) by (rule unknown_lookup)
  have voc: "operator \<noteq> MongoOperator.GREATER_THAN (mongoEnum env)"
    "operator \<noteq> MongoOperator.GREATER_OR_EQUAL (mongoEnum env)"
    "operator \<noteq> MongoOperator.LESS_THAN (mongoEnum env)"
    "operator \<noteq> MongoOperator.LESS_OR_EQUAL (mongoEnum env)"
    "operator \<noteq> MongoOperator.ILIKE (mongoEnum env)"
    using assms(2) by (auto simp: vocabulary_def)
  show ?thesis
    using assms(1,4) look voc
    by (simp add: processField_def Let_def determineOperator_def adjustForNull_def wrap_def)
qed

subsection \<open>The instance\<close>

lemmas sample_defs =
  processField_def segments_def element_def sampleEnv_def areMongoTypesTheSame_spec_def
  sampleClassify_def determineOperator_def sampleMongoOperator_def sampleSqlOperator_def
  object_get_def sqlOperatorTable_def adjustForNull_def wrap_def coerce_def Let_def
  Object_prototype_def createErrorFor_def

lemma sample_enums_ok: "enums_ok (mongoEnum sampleEnv) (sqlEnum sampleEnv)"
  by (simp add: enums_ok_def sampleEnv_def sampleMongoOperator_def sampleSqlOperator_def)

lemma sample_segments:
  "element (segments ''filter[name]'') 1 = Some ''name''"
  "element (segments ''filter[name]'') 2 = None"
  "element (segments ''filter[age]'') 1 = Some ''age''"
  "element (segments ''filter[age]'') 2 = None"
  "element (segments ''filter[age][$gt]'') 1 = Some ''age''"
  "element (segments ''filter[age][$gt]'') 2 = Some ''$gt''"
  "element (segments ''filter[name][$ne]'') 1 = Some ''name''"
  "element (segments ''filter[name][$ne]'') 2 = Some ''$ne''"
  "element (segments ''filter[name][$foo]'') 1 = Some ''name''"
  "element (segments ''filter[name][$foo]'') 2 = Some ''$foo''"
  by (simp_all add: segments_def element_def)

lemma sample_types:
  "areMongoTypesTheSame sampleEnv [''mike''] = Some STRING"
  "areMongoTypesTheSame sampleEnv [''10''] = Some NUMBER"
  "areMongoTypesTheSame sampleEnv [''null''] = Some NULL"
  "areMongoTypesTheSame sampleEnv [''10'', ''20''] = Some NUMBER"
  "areMongoTypesTheSame sampleEnv [''10'', ''abc''] = None"
  by (simp_all add: sampleEnv_def areMongoTypesTheSame_spec_def sampleClassify_def)

lemma sample_age_gt:
  "processField sampleEnv q (''filter[age][$gt]'', Scalar ''10'')
     = Inr (Nary (Str ''>'') [JString ''#age'', JNumber ''10''])"
  by (simp add: sample_defs)

lemma sample_name:
  "processField sampleEnv q (''filter[name]'', Scalar ''mike'')
     = Inr (Nary (Str ''ILIKE'') [JString ''#name'', JString ''mike''])"
  by (simp add: sample_defs)

lemma sample_filters_age:
  "processField sampleEnv q (''filters[age]'', Scalar ''10'')
     = Inr (Nary (Str ''='') [JString ''#age'', JNumber ''10''])"
  by (simp add: sample_defs)

lemma sample_null:
  "processField sampleEnv q (''filter[city]'', Scalar ''null'')
     = Inr (Unary (Str ''IS NULL'') ''#city'')"
  by (simp add: sample_defs)

lemma sample_not_null:
  "processField sampleEnv q (''filter[name][$ne]'', Scalar ''null'')
     = Inr (Unary (Str ''IS NOT NULL'') ''#name'')"
  by (simp add: sample_defs)

lemma sample_mixed:
  "processField sampleEnv q (''filter[age]'', Array [''10'', ''abc''])
     = Inl \<lparr>message = ''arrays should not mix multiple value types'', querystring = q,
            paramKey = ''filter[age]'', paramValue = Array [''10'', ''abc'']\<rparr>"
  by (simp add: sample_defs)

lemma sample_constructor:
  "processField sampleEnv q (''filter[name][constructor]'', Scalar ''mike'')
     = Inr (Nary (Inherited ''constructor'') [JString ''#name'', JString ''mike''])"
  by (simp add: sample_defs)

section \<open>The claims\<close>

text \<open>
  C1. For a field whose final target operator is substring-match, every value of the
  built predicate is wrapped with a wildcard marker on both sides. The code does not
  wrap: the table maps the source operator to \<^verbatim>\<open>SqlOperator.ILIKE\<close>, and the wrapping
  tests for \<^verbatim>\<open>SqlOperator.LIKE\<close>, another member of the enumeration. With pairwise
  different member values, a scalar string with no operator (or with the explicit
  substring-match operator) gives the substring-match predicate over the coerced value
  as it is.
\<close>

theorem substring_match_value_not_wrapped:
  assumes "enums_ok (mongoEnum env) (sqlEnum env)"
    and "element (segments param) 2 = None
         \<or> element (segments param) 2 = Some (MongoOperator.ILIKE (mongoEnum env))"
    and "areMongoTypesTheSame env [v] = Some STRING"
  shows "processField env q (param, Scalar v)
           = Inr (Nary (Str (SqlOperator.ILIKE (sqlEnum env)))
                   [JString (''#'' @ template_opt (element (segments param) 1)),
                    coerce env STRING v])"
  using assms by (rule ilike_scalar_string)

theorem substring_match_value_not_wrapped_witness:
  "enums_ok (mongoEnum sampleEnv) (sqlEnum sampleEnv)
   \<and> areMongoTypesTheSame sampleEnv [''mike''] = Some STRING
   \<and> processField sampleEnv ''filter[name]=mike'' (''filter[name]'', Scalar ''mike'')
       = Inr (Nary (Str ''ILIKE'') [JString ''#name'', JString ''mike''])"
proof -
  have h2: "element (segments ''filter[name]'') 2 = None
         \<or> element (segments ''filter[name]'') 2 = Some (MongoOperator.ILIKE (mongoEnum sampleEnv))"
    by (simp add: sample_segments)
  have c: "coerce sampleEnv STRING ''mike'' = JString ''mike''"
    by (simp add: coerce_def sampleEnv_def)
  have s: "SqlOperator.ILIKE (sqlEnum sampleEnv) = ''ILIKE''"
    by (simp add: sampleEnv_def sampleSqlOperator_def)
  show ?thesis
    using substring_match_value_not_wrapped
            [OF sample_enums_ok h2 sample_types(1), of "''filter[name]=mike''"]
          sample_enums_ok sample_types(1) c s
    by (simp add: segments_def element_def)
qed

text \<open>
  C2. For every well-formed querystring, also one without any filter key, the parse
  returns a value of results and errors and never raises. The code does not: when no
  key starts with the filter prefix, \<^verbatim>\<open>fieldResults\<close> is empty, and
  \<^verbatim>\<open>reduce\<close> without an initial value raises a TypeError.
\<close>

theorem parseMongoFilter_without_filter_throws:
  assumes "filterParams qsParams = []"
  shows "parseMongoFilter env q qsParams = Throws TypeError"
  using assms by (simp add: parseMongoFilter_def)

theorem parseMongoFilter_without_filter_throws_witness:
  "filterParams [(''sort'', Array [''-date'', ''name''])] = []
   \<and> parseMongoFilter sampleEnv ''sort=-date,name'' [(''sort'', Array [''-date'', ''name''])]
       = Throws TypeError"
proof -
  have h: "filterParams [(''sort'', Array [''-date'', ''name''])] = []"
    by (simp add: filterParams_def startsWith_def)
  show ?thesis
    using h parseMongoFilter_without_filter_throws [OF h, of sampleEnv "''sort=-date,name''"]
    by simp
qed

text \<open>
  C3, as amended. Only the parameters whose key starts with the filter prefix
  contribute: two inputs whose parameters with such a key are the same, in the same
  order, give the same completion and the same results, and the same errors up to the
  querystring that each error echoes.
\<close>

theorem only_keys_starting_with_filter_contribute:
  assumes "filterParams qsParams' = filterParams qsParams"
  shows "parseMongoFilter env q' qsParams'
           = map_completion (with_querystring q') (parseMongoFilter env q qsParams)"
proof -
  have "filterParamsLoop env q' [] [] (filterParams qsParams)
          = map_sum (with_querystring q') (map_prod (map (\<lambda>e. e\<lparr>querystring := q'\<rparr>)) (\<lambda>r. r))
              (filterParamsLoop env q [] [] (filterParams qsParams))"
    using loop_querystring [of env q' "[]" "[]" "filterParams qsParams" q] by simp
  then show ?thesis
    using assms
    by (cases "filterParamsLoop env q [] [] (filterParams qsParams)")
       (auto simp: parseMongoFilter_def with_querystring_def split: completion.splits)
qed

theorem only_keys_starting_with_filter_contribute_witness:
  "filterParams [(''sort'', Scalar ''name''), (''filter[age]'', Array [''10'', ''abc''])]
     = filterParams [(''filter[age]'', Array [''10'', ''abc''])]
   \<and> parseMongoFilter sampleEnv ''sort=name&filter[age]=10,abc''
        [(''sort'', Scalar ''name''), (''filter[age]'', Array [''10'', ''abc''])]
       = Returns \<lparr>filter_results = None,
            filter_errors =
              [\<lparr>message = ''arrays should not mix multiple value types'',
                querystring = ''sort=name&filter[age]=10,abc'',
                paramKey = ''filter[age]'', paramValue = Array [''10'', ''abc'']\<rparr>]\<rparr>"
proof -
  have h: "filterParams [(''sort'', Scalar ''name''), (''filter[age]'', Array [''10'', ''abc''])]
     = filterParams [(''filter[age]'', Array [''10'', ''abc''])]"
    by (simp add: filterParams_def startsWith_def)
  have e: "parseMongoFilter sampleEnv ''filter[age]=10,abc'' [(''filter[age]'', Array [''10'', ''abc''])]
       = Returns \<lparr>filter_results = None,
            filter_errors =
              [\<lparr>message = ''arrays should not mix multiple value types'',
                querystring = ''filter[age]=10,abc'',
                paramKey = ''filter[age]'', paramValue = Array [''10'', ''abc'']\<rparr>]\<rparr>"
    by (simp add: parseMongoFilter_def filterParams_def startsWith_def sample_mixed)
  show ?thesis
    using only_keys_starting_with_filter_contribute
            [OF h, of sampleEnv "''sort=name&filter[age]=10,abc''" "''filter[age]=10,abc''"] h e
    by (simp add: with_querystring_def)
qed

text \<open>
  The claim C3 as stated fails: the parameter \<^verbatim>\<open>filters[age]=10\<close> has the top-level
  segment \<^verbatim>\<open>filters\<close>, which is not the filter prefix, and adding it changes the
  results.
\<close>

theorem top_level_segment_counterexample:
  "segments ''filters[age]'' ! 0 = ''filters''
   \<and> ''filters'' \<noteq> ''filter''
   \<and> parseMongoFilter sampleEnv ''filter[name]=mike'' [(''filter[name]'', Scalar ''mike'')]
       = Returns \<lparr>filter_results = Some (Nary (Str ''ILIKE'') [JString ''#name'', JString ''mike'']),
            filter_errors = []\<rparr>
   \<and> parseMongoFilter sampleEnv ''filter[name]=mike&filters[age]=10''
        [(''filter[name]'', Scalar ''mike''), (''filters[age]'', Scalar ''10'')]
       = Returns \<lparr>filter_results =
            Some (AND (Nary (Str ''ILIKE'') [JString ''#name'', JString ''mike''])
                      (Nary (Str ''='') [JString ''#age'', JNumber ''10''])),
            filter_errors = []\<rparr>"
  by (simp add: parseMongoFilter_def filterParams_def startsWith_def sample_name
        sample_filters_age segments_def)

text \<open>
  C4. When a field fails the classification or a compatibility check, the parse returns
  right after the first failing field: the error list holds exactly the one error of
  that field, results is undefined, and no later field contributes anything (the fields
  after the failing one do not occur in the result).
\<close>

theorem first_failing_field_short_circuits:
  assumes "filterParams qsParams = pre @ entry # post"
    and "\<forall>p \<in> set pre. \<exists>r. processField env q p = Inr r"
    and "processField env q entry = Inl e"
  shows "parseMongoFilter env q qsParams
           = Returns \<lparr>filter_results = None, filter_errors = [e]\<rparr>"
  using loop_first_failure [OF assms(2,3), of "[]" "[]" post] assms(1)
  by (simp add: parseMongoFilter_def)

theorem first_failing_field_short_circuits_witness:
  "parseMongoFilter sampleEnv ''filter[name]=mike&filter[age]=10,abc&filter[age][$gt]=10''
     [(''filter[name]'', Scalar ''mike''), (''filter[age]'', Array [''10'', ''abc'']),
      (''filter[age][$gt]'', Scalar ''10'')]
   = Returns \<lparr>filter_results = None,
        filter_errors =
          [\<lparr>message = ''arrays should not mix multiple value types'',
            querystring = ''filter[name]=mike&filter[age]=10,abc&filter[age][$gt]=10'',
            paramKey = ''filter[age]'', paramValue = Array [''10'', ''abc'']\<rparr>]\<rparr>"
proof -
  have h1: "filterParams
      [(''filter[name]'', Scalar ''mike''), (''filter[age]'', Array [''10'', ''abc'']),
       (''filter[age][$gt]'', Scalar ''10'')]
    = [(''filter[name]'', Scalar ''mike'')] @ (''filter[age]'', Array [''10'', ''abc''])
        # [(''filter[age][$gt]'', Scalar ''10'')]"
    by (simp add: filterParams_def startsWith_def)
  have h2: "\<forall>p \<in> set [(''filter[name]'', Scalar ''mike'')].
      \<exists>r. processField sampleEnv ''filter[name]=mike&filter[age]=10,abc&filter[age][$gt]=10'' p
             = Inr (r :: string predicate)"
    by (simp add: sample_name)
  show ?thesis
    using first_failing_field_short_circuits [OF h1 h2 sample_mixed] by simp
qed

text \<open>
  C5. With no operator supplied: an array value resolves to in-set whatever the
  classified type; a scalar value resolves to equals for NUMBER or DATE, to the
  null-equality case for NULL and to substring-match for STRING. The second part gives
  the predicate built from the resolved operator.
\<close>

theorem default_operator:
  assumes "enums_ok (mongoEnum env) (sqlEnum env)"
    and "element (segments param) 2 = None"
    and "areMongoTypesTheSame env (valuesOf pv) = Some t"
  shows "determineOperator (mongoEnum env) (element (segments param) 2) (Array_isArray pv) t
           = (if Array_isArray pv then MongoOperator.IN (mongoEnum env)
              else if t = NUMBER \<or> t = DATE then MongoOperator.EQUALS (mongoEnum env)
              else if t = NULL then MongoOperator.IS_NULL (mongoEnum env)
              else MongoOperator.ILIKE (mongoEnum env))
       \<and> processField env q (param, pv)
           = (if Array_isArray pv then
                Inr (Nary (Str (SqlOperator.IN (sqlEnum env)))
                      (JString (''#'' @ template_opt (element (segments param) 1))
                         # map (coerce env t) (valuesOf pv)))
              else if t = NUMBER \<or> t = DATE then
                Inr (Nary (Str (SqlOperator.EQUALS (sqlEnum env)))
                      (JString (''#'' @ template_opt (element (segments param) 1))
                         # map (coerce env t) (valuesOf pv)))
              else if t = NULL then
                Inr (Unary (Str (SqlOperator.IS_NULL (sqlEnum env)))
                      (''#'' @ template_opt (element (segments param) 1)))
              else
                Inr (Nary (Str (SqlOperator.ILIKE (sqlEnum env)))
                      (JString (''#'' @ template_opt (element (segments param) 1))
                         # map (coerce env t) (valuesOf pv))))"
proof (cases pv)
  case (Array vs)
  with assms(3) have ty: "areMongoTypesTheSame env vs = Some t" by simp
  from omitted_array [OF assms(1,2) ty, of q] Array assms(2)
  show ?thesis by (simp add: determineOperator_def)
next
  case (Scalar v)
  with assms(3) have ty: "areMongoTypesTheSame env [v] = Some t" by simp
  show ?thesis
  proof (cases t)
    case NUMBER
    with omitted_scalar_equals [OF assms(1,2) ty, of q] Scalar assms(2)
    show ?thesis by (simp add: determineOperator_def)
  next
    case DATE
    with omitted_scalar_equals [OF assms(1,2) ty, of q] Scalar assms(2)
    show ?thesis by (simp add: determineOperator_def)
  next
    case NULL
    with omitted_scalar_null [OF assms(1,2), of v q] ty Scalar assms(2)
    show ?thesis by (simp add: determineOperator_def)
  next
    case STRING
    with ilike_scalar_string [OF assms(1), of param v q] ty Scalar assms(2)
    show ?thesis by (simp add: determineOperator_def)
  qed
qed

theorem default_operator_witness:
  "enums_ok (mongoEnum sampleEnv) (sqlEnum sampleEnv)
   \<and> element (segments ''filter[age]'') 2 = None
   \<and> areMongoTypesTheSame sampleEnv (valuesOf (Array [''10'', ''20''])) = Some NUMBER
   \<and> determineOperator (mongoEnum sampleEnv) (element (segments ''filter[age]'') 2)
        (Array_isArray (Array [''10'', ''20''])) NUMBER = ''$in''
   \<and> processField sampleEnv ''filter[age]=10,20'' (''filter[age]'', Array [''10'', ''20''])
       = Inr (Nary (Str ''IN'') [JString ''#age'', JNumber ''10'', JNumber ''20''])"
proof -
  have h3: "areMongoTypesTheSame sampleEnv (valuesOf (Array [''10'', ''20''])) = Some NUMBER"
    by (simp add: sample_types)
  have c: "coerce sampleEnv NUMBER ''10'' = JNumber ''10''"
    "coerce sampleEnv NUMBER ''20'' = JNumber ''20''"
    by (simp_all add: coerce_def sampleEnv_def)
  have s: "SqlOperator.IN (sqlEnum sampleEnv) = ''IN''"
    "MongoOperator.IN (mongoEnum sampleEnv) = ''$in''"
    by (simp_all add: sampleEnv_def sampleSqlOperator_def sampleMongoOperator_def)
  show ?thesis
    using default_operator [OF sample_enums_ok sample_segments(4) h3, of "''filter[age]=10,20''"]
          sample_enums_ok h3 c s
    by (simp add: segments_def element_def)
qed

text \<open>
  C6. For a validated field the source operator is first mapped by the fixed table; only
  then, when the classified type is NULL, a base result of equals becomes is-null and a
  base result of not-equals becomes is-not-null, and these unary predicates carry the
  field reference alone. In every other case the key of the predicate is the base
  result, and the predicate carries the reference and the values.
\<close>

theorem null_adjustment_after_mapping:
  assumes "enums_ok (mongoEnum env) (sqlEnum env)"
    and "areMongoTypesTheSame env (valuesOf pv) = Some t"
    and "processField env q (param, pv) = Inr p"
  shows "(let MO = mongoEnum env; SO = sqlEnum env;
              base = object_get (sqlOperatorTable MO SO)
                       (determineOperator MO (element (segments param) 2) (Array_isArray pv) t);
              ref = ''#'' @ template_opt (element (segments param) 1)
          in map (object_get (sqlOperatorTable MO SO)) (vocabulary MO)
               = map Str [SqlOperator.EQUALS SO, SqlOperator.EQUALS SO, SqlOperator.NOT_EQUALS SO,
                          SqlOperator.GREATER_THAN SO, SqlOperator.GREATER_OR_EQUAL SO,
                          SqlOperator.LESS_THAN SO, SqlOperator.LESS_OR_EQUAL SO,
                          SqlOperator.ILIKE SO, SqlOperator.IN SO, SqlOperator.NOT_IN SO]
           \<and> (t = NULL \<and> base = Str (SqlOperator.EQUALS SO)
                \<longrightarrow> p = Unary (Str (SqlOperator.IS_NULL SO)) ref)
           \<and> (t = NULL \<and> base = Str (SqlOperator.NOT_EQUALS SO)
                \<longrightarrow> p = Unary (Str (SqlOperator.IS_NOT_NULL SO)) ref)
           \<and> (\<not> (t = NULL \<and> base \<in> {Str (SqlOperator.EQUALS SO), Str (SqlOperator.NOT_EQUALS SO)})
                \<longrightarrow> p = Nary base
                          (JString ref # map (wrap env base) (map (coerce env t) (valuesOf pv)))))"
proof -
  have tbl: "map (object_get (sqlOperatorTable (mongoEnum env) (sqlEnum env))) (vocabulary (mongoEnum env))
      = map Str [SqlOperator.EQUALS (sqlEnum env), SqlOperator.EQUALS (sqlEnum env),
                 SqlOperator.NOT_EQUALS (sqlEnum env), SqlOperator.GREATER_THAN (sqlEnum env),
                 SqlOperator.GREATER_OR_EQUAL (sqlEnum env), SqlOperator.LESS_THAN (sqlEnum env),
                 SqlOperator.LESS_OR_EQUAL (sqlEnum env), SqlOperator.ILIKE (sqlEnum env),
                 SqlOperator.IN (sqlEnum env), SqlOperator.NOT_IN (sqlEnum env)]"
    by (simp add: vocabulary_def table_lookup [OF assms(1)])
  from validated_field [OF assms refl refl] tbl
  show ?thesis unfolding Let_def by blast
qed

theorem null_adjustment_after_mapping_witness:
  "enums_ok (mongoEnum sampleEnv) (sqlEnum sampleEnv)
   \<and> areMongoTypesTheSame sampleEnv (valuesOf (Scalar ''null'')) = Some NULL
   \<and> object_get (sqlOperatorTable (mongoEnum sampleEnv) (sqlEnum sampleEnv)) ''$ne'' = Str ''<>''
   \<and> processField sampleEnv ''filter[name][$ne]=null'' (''filter[name][$ne]'', Scalar ''null'')
       = Inr (Unary (Str ''IS NOT NULL'') ''#name'')"
proof -
  have h2: "areMongoTypesTheSame sampleEnv (valuesOf (Scalar ''null'')) = Some NULL"
    by (simp add: sample_types)
  have h3: "processField sampleEnv ''filter[name][$ne]=null'' (''filter[name][$ne]'', Scalar ''null'')
       = Inr (Unary (Str ''IS NOT NULL'') ''#name'' :: string predicate)"
    by (rule sample_not_null)
  have l: "object_get (sqlOperatorTable (mongoEnum sampleEnv) (sqlEnum sampleEnv)) ''$ne'' = Str ''<>''"
    by (simp add: object_get_def sqlOperatorTable_def sampleEnv_def sampleMongoOperator_def
          sampleSqlOperator_def)
  show ?thesis
    using null_adjustment_after_mapping [OF sample_enums_ok h2 h3] sample_enums_ok h2 h3 l
    by simp
qed

text \<open>
  C7. When all N fields succeed with the leaf predicates p1 .. pn in extraction order,
  the result is p1 itself for N = 1 and the binary left-leaning fold
  AND(AND(AND(p1,p2),p3)...,pn) for N at least 2: a tree of depth N - 1 whose right
  children are all leaves.
\<close>

theorem results_left_fold_AND:
  assumes "map (processField env q) (filterParams qsParams) = map Inr (p # ps)"
  shows "parseMongoFilter env q qsParams
           = Returns \<lparr>filter_results = Some (foldl AND p ps), filter_errors = []\<rparr>
       \<and> (ps = [] \<longrightarrow> foldl AND p ps = p)
       \<and> depth (foldl AND p ps) = length (p # ps) - 1
       \<and> left_leaning (foldl AND p ps)"
proof -
  have leaves: "list_all is_leaf (p # ps)"
  proof -
    have "\<forall>x \<in> set (p # ps). is_leaf x"
    proof
      fix x assume "x \<in> set (p # ps)"
      then have "Inr x \<in> set (map (processField env q) (filterParams qsParams))"
        using assms by auto
      then obtain entry where "processField env q entry = Inr x" by auto
      then show "is_leaf x" by (rule processField_leaf)
    qed
    then show ?thesis by (simp add: list_all_iff)
  qed
  have "filterParamsLoop env q [] [] (filterParams qsParams) = Inr ([], p # ps)"
    using loop_all_ok [OF assms, of "[]" "[]"] by simp
  then have 1: "parseMongoFilter env q qsParams
           = Returns \<lparr>filter_results = Some (foldl AND p ps), filter_errors = []\<rparr>"
    by (simp add: parseMongoFilter_def)
  have 2: "depth (foldl AND p ps) = length ps"
    using leaves foldl_AND_depth [of ps p] by (simp add: leaf_depth)
  have 3: "left_leaning (foldl AND p ps)"
    using leaves foldl_AND_left_leaning [of p ps] by (cases p) simp_all
  from 1 2 3 show ?thesis by simp
qed

theorem results_left_fold_AND_witness:
  "parseMongoFilter sampleEnv ''filter[age][$gt]=10&filter[name]=mike&filter[city]=null''
     [(''filter[age][$gt]'', Scalar ''10''), (''filter[name]'', Scalar ''mike''),
      (''filter[city]'', Scalar ''null'')]
   = Returns \<lparr>filter_results =
        Some (AND (AND (Nary (Str ''>'') [JString ''#age'', JNumber ''10''])
                       (Nary (Str ''ILIKE'') [JString ''#name'', JString ''mike'']))
                  (Unary (Str ''IS NULL'') ''#city'')),
        filter_errors = []\<rparr>"
proof -
  have h: "map (processField sampleEnv ''filter[age][$gt]=10&filter[name]=mike&filter[city]=null'')
      (filterParams [(''filter[age][$gt]'', Scalar ''10''), (''filter[name]'', Scalar ''mike''),
                     (''filter[city]'', Scalar ''null'')])
    = map Inr (Nary (Str ''>'') [JString ''#age'', JNumber ''10'']
               # [Nary (Str ''ILIKE'') [JString ''#name'', JString ''mike''],
                  Unary (Str ''IS NULL'') ''#city''])"
    by (simp add: filterParams_def startsWith_def sample_age_gt sample_name sample_null)
  show ?thesis
    using results_left_fold_AND [OF h] by simp
qed

text \<open>
  C8 (against the classification as the spec gives it). When the values of a field hold
  two elements that classify differently, and the field is reached, the parse gives
  exactly one error, the one of mixed value types for that field, and no result:
  results is undefined and no predicate is built.
\<close>

theorem mixed_value_types_error:
  assumes "areMongoTypesTheSame env = areMongoTypesTheSame_spec classify"
    and "filterParams qsParams = pre @ (param, Array vs) # post"
    and "\<forall>p \<in> set pre. \<exists>r. processField env q p = Inr r"
    and "i < length vs" and "j < length vs" and "classify (vs ! i) \<noteq> classify (vs ! j)"
  shows "parseMongoFilter env q qsParams
           = Returns \<lparr>filter_results = None,
                filter_errors =
                  [createErrorFor q (element (segments param) 1) (element (segments param) 2)
                     (Array vs) ''arrays should not mix multiple value types'']\<rparr>"
proof -
  have "areMongoTypesTheSame env (valuesOf (Array vs)) = None"
    using spec_mixed [OF assms(4-6)] assms(1) by simp
  from mixed_field [OF this, of q param]
    loop_first_failure [OF assms(3), of "(param, Array vs)" _ "[]" "[]" post]
  show ?thesis using assms(2) by (simp add: parseMongoFilter_def)
qed

theorem mixed_value_types_error_witness:
  "parseMongoFilter sampleEnv ''filter[name]=mike&filter[age]=10,abc''
     [(''filter[name]'', Scalar ''mike''), (''filter[age]'', Array [''10'', ''abc''])]
   = Returns \<lparr>filter_results = None,
        filter_errors =
          [\<lparr>message = ''arrays should not mix multiple value types'',
            querystring = ''filter[name]=mike&filter[age]=10,abc'',
            paramKey = ''filter[age]'', paramValue = Array [''10'', ''abc'']\<rparr>]\<rparr>"
proof -
  have h1: "areMongoTypesTheSame sampleEnv = areMongoTypesTheSame_spec sampleClassify"
    by (simp add: sampleEnv_def)
  have h2: "filterParams [(''filter[name]'', Scalar ''mike''), (''filter[age]'', Array [''10'', ''abc''])]
      = [(''filter[name]'', Scalar ''mike'')] @ (''filter[age]'', Array [''10'', ''abc'']) # []"
    by (simp add: filterParams_def startsWith_def)
  have h3: "\<forall>p \<in> set [(''filter[name]'', Scalar ''mike'')].
      \<exists>r. processField sampleEnv ''filter[name]=mike&filter[age]=10,abc'' p
             = Inr (r :: string predicate)"
    by (simp add: sample_name)
  have h4: "0 < length [''10'', ''abc'']" and h5: "1 < length [''10'', ''abc'']" by simp_all
  have h6: "sampleClassify ([''10'', ''abc''] ! 0) \<noteq> sampleClassify ([''10'', ''abc''] ! 1)"
    by (simp add: sampleClassify_def)
  show ?thesis
    using mixed_value_types_error [OF h1 h2 h3 h4 h5 h6]
    by (simp add: createErrorFor_def segments_def element_def)
qed

text \<open>
  C9. Given an empty array and no prior parser errors, the include validator returns
  empty results and empty errors: no error and no select operation.
\<close>

theorem parseInclude_empty_array:
  assumes "containsNoErrorFromParser helpers includeErrors"
    and "isAnArray helpers (Array [])"
  shows "parseInclude helpers (Array []) includeErrors = \<lparr>results = [], errors = []\<rparr>"
  using assms by (simp add: parseInclude_def)

theorem parseInclude_empty_array_witness:
  "containsNoErrorFromParser sampleValidation []
   \<and> isAnArray sampleValidation (Array [])
   \<and> parseInclude sampleValidation (Array []) [] = \<lparr>results = [], errors = []\<rparr>"
proof -
  have h1: "containsNoErrorFromParser sampleValidation ([] :: string list)"
    by (simp add: sampleValidation_def)
  have h2: "isAnArray sampleValidation (Array [])"
    by (simp add: sampleValidation_def)
  show ?thesis
    using h1 h2 parseInclude_empty_array [OF h1 h2] by simp
qed

text \<open>
  C10, as amended. For a field with an explicitly supplied operator token that is
  neither in the source operator vocabulary nor the name of a member of
  \<^verbatim>\<open>Object.prototype\<close>, and a scalar value (the only shape that passes the array
  check with such a token), no error is reported: the table lookup is undefined, and the
  predicate is the non-unary node keyed by that undefined result, with the field
  reference and the coerced value.
\<close>

theorem unknown_operator_builds_predicate:
  assumes "element (segments param) 2 = Some operator"
    and "operator \<notin> set (vocabulary (mongoEnum env))"
    and "operator \<notin> set Object_prototype"
    and "areMongoTypesTheSame env [v] = Some t"
  shows "object_get (sqlOperatorTable (mongoEnum env) (sqlEnum env)) operator = Undefined
       \<and> processField env q (param, Scalar v)
           = Inr (Nary Undefined
                   [JString (''#'' @ template_opt (element (segments param) 1)), coerce env t v])"
  using unknown_operator_field [OF assms] unknown_lookup [OF assms(2,3)] by simp

theorem unknown_operator_builds_predicate_witness:
  "element (segments ''filter[name][$foo]'') 2 = Some ''$foo''
   \<and> ''$foo'' \<notin> set (vocabulary (mongoEnum sampleEnv))
   \<and> ''$foo'' \<notin> set Object_prototype
   \<and> areMongoTypesTheSame sampleEnv [''mike''] = Some STRING
   \<and> processField sampleEnv ''filter[name][$foo]=mike'' (''filter[name][$foo]'', Scalar ''mike'')
       = Inr (Nary Undefined [JString ''#name'', JString ''mike''])"
proof -
  have h2: "''$foo'' \<notin> set (vocabulary (mongoEnum sampleEnv))"
    by (simp add: vocabulary_def sampleEnv_def sampleMongoOperator_def)
  have h3: "''$foo'' \<notin> set Object_prototype"
    by (simp add: Object_prototype_def)
  have c: "coerce sampleEnv STRING ''mike'' = JString ''mike''"
    by (simp add: coerce_def sampleEnv_def)
  show ?thesis
    using unknown_operator_builds_predicate
            [OF sample_segments(10) h2 h3 sample_types(1), of "''filter[name][$foo]=mike''"]
          h2 h3 sample_types(1) c
    by (simp add: segments_def element_def)
qed

text \<open>
  The claim C10 as stated fails: \<^verbatim>\<open>constructor\<close> is outside the vocabulary, but the
  lookup in the table, an object literal, reaches \<^verbatim>\<open>Object.prototype.constructor\<close> and
  is not undefined.
\<close>

theorem inherited_operator_counterexample:
  "''constructor'' \<notin> set (vocabulary (mongoEnum sampleEnv))
   \<and> object_get (sqlOperatorTable (mongoEnum sampleEnv) (sqlEnum sampleEnv)) ''constructor''
       = Inherited ''constructor''
   \<and> processField sampleEnv ''filter[name][constructor]=mike''
        (''filter[name][constructor]'', Scalar ''mike'')
       = Inr (Nary (Inherited ''constructor'') [JString ''#name'', JString ''mike''])"
proof -
  have 1: "''constructor'' \<notin> set (vocabulary (mongoEnum sampleEnv))"
    by (simp add: vocabulary_def sampleEnv_def sampleMongoOperator_def)
  have 2: "object_get (sqlOperatorTable (mongoEnum sampleEnv) (sqlEnum sampleEnv)) ''constructor''
       = Inherited ''constructor''"
    by (simp add: sampleEnv_def sampleMongoOperator_def object_get_def sqlOperatorTable_def
          Object_prototype_def)
  from 1 2 show ?thesis by (simp add: sample_constructor)
qed

end
